theory Spec2Isabelle
  imports Main
begin

section \<open>Request and response models of the query and chat server\<close>

text \<open>
  This development embeds \<^verbatim>\<open>backend/danswer/server/query_and_chat/models.py\<close>.
  The module declares pydantic models. Three of them carry a root validator, a function
  from the dictionary of validated field values to the same dictionary, which raises
  \<^verbatim>\<open>ValueError\<close> to reject the request; one of them overrides \<^verbatim>\<open>dict\<close>.
\<close>

subsection \<open>Python values and dictionaries\<close>

text \<open>
  A \<^verbatim>\<open>datetime\<close> value: the calendar fields, and the offset from UTC in
  microseconds when the value is timezone-aware (\<open>None\<close> for a naive value).
\<close>

record datetime =
  year :: nat
  month :: nat
  day :: nat
  hour :: nat
  minute :: nat
  second :: nat
  microsecond :: nat
  utcoffset :: "int option"

text \<open>
  The values a field can hold. \<open>'o\<close> stands for instances of the classes that the
  module imports from elsewhere (\<^verbatim>\<open>RetrievalDetails\<close>, \<^verbatim>\<open>SearchFeedbackType\<close>,
  \<^verbatim>\<open>FileDescriptor\<close>, ...): the module never looks inside them.
\<close>

datatype 'o pyval =
    PyNone
  | PyBool bool
  | PyInt int
  | PyStr string
  | PyList "'o pyval list"
  | PyDict "('o pyval \<times> 'o pyval) list"
  | PyDatetime datetime
  | PyObj 'o

text \<open>A \<^verbatim>\<open>dict\<close> keyed by field names.\<close>

type_synonym 'o pydict = "string \<rightharpoonup> 'o pyval"

text \<open>
  \<^verbatim>\<open>values.get(key)\<close>: the stored value, \<^verbatim>\<open>None\<close> for a missing key. The
  dictionary that the source calls \<^verbatim>\<open>values\<close> is \<open>vals\<close> throughout.
\<close>

definition dict_get :: "'o pydict \<Rightarrow> string \<Rightarrow> 'o pyval" where
  "dict_get vals k = (case vals k of None \<Rightarrow> PyNone | Some v \<Rightarrow> v)"

text \<open>
  Python's truth-value testing on these values, to set against the \<^verbatim>\<open>is None\<close>
  tests of the validators. An imported object is taken as true, the default for objects.
\<close>

fun truthy :: "'o pyval \<Rightarrow> bool" where
  "truthy PyNone = False"
| "truthy (PyBool b) = b"
| "truthy (PyInt i) = (i \<noteq> 0)"
| "truthy (PyStr s) = (s \<noteq> [])"
| "truthy (PyList xs) = (xs \<noteq> [])"
| "truthy (PyDict kvs) = (kvs \<noteq> [])"
| "truthy (PyDatetime d) = True"
| "truthy (PyObj x) = True"

text \<open>
  Exceptions. A root validator raises \<^verbatim>\<open>ValueError\<close>; pydantic catches it and
  raises \<^verbatim>\<open>ValidationError\<close> with the collected messages.
\<close>

datatype exn = ValueError string | ValidationError "string list"

text \<open>Optional fields: \<^verbatim>\<open>None\<close> or the value.\<close>

definition py_opt :: "('a \<Rightarrow> 'o pyval) \<Rightarrow> 'a option \<Rightarrow> 'o pyval" where
  "py_opt f x = (case x of None \<Rightarrow> PyNone | Some v \<Rightarrow> f v)"

subsection \<open>The root validators\<close>

text \<open>\<^verbatim>\<open>ChatFeedbackRequest.check_is_positive_or_feedback_text\<close>\<close>

definition check_is_positive_or_feedback_text :: "'o pydict \<Rightarrow> exn + 'o pydict" where
  "check_is_positive_or_feedback_text vals =
     (let is_positive = dict_get vals ''is_positive'';
          feedback_text = dict_get vals ''feedback_text''
      in if is_positive = PyNone \<and> feedback_text = PyNone
         then Inl (ValueError ''Empty feedback received.'')
         else Inr vals)"

text \<open>\<^verbatim>\<open>CreateChatMessageRequest.check_search_doc_ids_or_retrieval_options\<close>\<close>

definition check_search_doc_ids_or_retrieval_options :: "'o pydict \<Rightarrow> exn + 'o pydict" where
  "check_search_doc_ids_or_retrieval_options vals =
     (let search_doc_ids = dict_get vals ''search_doc_ids'';
          retrieval_options = dict_get vals ''retrieval_options''
      in if search_doc_ids = PyNone \<and> retrieval_options = PyNone
         then Inl (ValueError
           ''Either search_doc_ids or retrieval_options must be provided, but not both or neither.'')
         else Inr vals)"

text \<open>\<^verbatim>\<open>SearchFeedbackRequest.check_click_or_search_feedback\<close>\<close>

definition check_click_or_search_feedback :: "'o pydict \<Rightarrow> exn + 'o pydict" where
  "check_click_or_search_feedback vals =
     (let click = dict_get vals ''click'';
          feedback = dict_get vals ''search_feedback''
      in if click = PyBool False \<and> feedback = PyNone
         then Inl (ValueError ''Empty feedback received.'')
         else Inr vals)"

text \<open>
  How pydantic runs a root validator when a model is constructed: a \<^verbatim>\<open>ValueError\<close>
  becomes a \<^verbatim>\<open>ValidationError\<close>, and otherwise the returned dictionary becomes the
  fields of the model.
\<close>

definition run_root_validator ::
  "('o pydict \<Rightarrow> exn + 'o pydict) \<Rightarrow> 'o pydict \<Rightarrow> exn + 'o pydict" where
  "run_root_validator validator vals =
     (case validator vals of
        Inl (ValueError msg) \<Rightarrow> Inl (ValidationError [msg])
      | Inl (ValidationError msgs) \<Rightarrow> Inl (ValidationError msgs)
      | Inr vals' \<Rightarrow> Inr vals')"

subsection \<open>Models with defaults\<close>

text \<open>
  A keyword argument of a model constructor is omitted or given. An omitted argument of
  a field with a default takes the default.
\<close>

datatype 'a arg = Omitted | Given 'a

definition field_default :: "'a \<Rightarrow> 'a arg \<Rightarrow> 'a" where
  "field_default d a = (case a of Omitted \<Rightarrow> d | Given v \<Rightarrow> v)"

text \<open>
  \<^verbatim>\<open>class ChatSessionCreationRequest(BaseModel)\<close>:
  \<^verbatim>\<open>persona_id: int = 0\<close>, \<^verbatim>\<open>description: str | None = None\<close>.
\<close>

record ChatSessionCreationRequest =
  persona_id :: int
  description :: "string option"

definition ChatSessionCreationRequest_init ::
  "int arg \<Rightarrow> string option arg \<Rightarrow> ChatSessionCreationRequest" where
  "ChatSessionCreationRequest_init persona_id_arg description_arg =
     \<lparr> persona_id = field_default 0 persona_id_arg,
       description = field_default None description_arg \<rparr>"

text \<open>
  \<^verbatim>\<open>class ToolConfig(BaseModel)\<close>: \<^verbatim>\<open>name: str\<close>, \<^verbatim>\<open>description: str\<close>,
  \<^verbatim>\<open>in_code_tool_id: int | None = None\<close>, \<^verbatim>\<open>display_name: str | None = None\<close>,
  \<^verbatim>\<open>openapi_schema: dict[str, Any] = None\<close>.
\<close>

record 'o ToolConfig =
  name :: string
  description :: string
  in_code_tool_id :: "int option"
  display_name :: "string option"
  openapi_schema :: "(string \<times> 'o pyval) list option"

definition ToolConfig_init ::
  "string \<Rightarrow> string \<Rightarrow> int option arg \<Rightarrow> string option arg \<Rightarrow>
   (string \<times> 'o pyval) list option arg \<Rightarrow> 'o ToolConfig" where
  "ToolConfig_init name_arg description_arg in_code_tool_id_arg display_name_arg
     openapi_schema_arg =
     \<lparr> name = name_arg,
       description = description_arg,
       in_code_tool_id = field_default None in_code_tool_id_arg,
       display_name = field_default None display_name_arg,
       openapi_schema = field_default None openapi_schema_arg \<rparr>"

subsection \<open>Timestamps as text\<close>

text \<open>
  \<^verbatim>\<open>datetime.isoformat()\<close> of the Python standard library, with its default separator
  and precision: \<^verbatim>\<open>YYYY-MM-DDTHH:MM:SS\<close>, then \<^verbatim>\<open>.ffffff\<close> when the microsecond is
  not zero, then the offset \<^verbatim>\<open>+HH:MM\<close> (with seconds and microseconds when it has any)
  for a timezone-aware value.
\<close>

fun dec :: "nat \<Rightarrow> string" where
  "dec n = (if n < 10 then [''0123456789'' ! n]
            else dec (n div 10) @ [''0123456789'' ! (n mod 10)])"

declare dec.simps [simp del]

text \<open>\<^verbatim>\<open>"%0wd" % n\<close>: at least \<open>w\<close> digits, padded with zeros on the left.\<close>

definition fmt_d :: "nat \<Rightarrow> nat \<Rightarrow> string" where
  "fmt_d w n = replicate (w - length (dec n)) (CHR ''0'') @ dec n"

definition format_time :: "nat \<Rightarrow> nat \<Rightarrow> nat \<Rightarrow> nat \<Rightarrow> string" where
  "format_time hh mm ss us =
     fmt_d 2 hh @ '':'' @ fmt_d 2 mm @ '':'' @ fmt_d 2 ss @
     (if us \<noteq> 0 then ''.'' @ fmt_d 6 us else [])"

definition format_offset :: "int option \<Rightarrow> string" where
  "format_offset off =
     (case off of
        None \<Rightarrow> []
      | Some t \<Rightarrow>
          (let sign = (if t < 0 then ''-'' else ''+'');
               a = nat \<bar>t\<bar>;
               hh = a div 3600000000;
               r = a mod 3600000000;
               mm = r div 60000000;
               ss = r mod 60000000
           in sign @ fmt_d 2 hh @ '':'' @ fmt_d 2 mm @
              (if ss \<noteq> 0
               then '':'' @ fmt_d 2 (ss div 1000000) @
                    (if ss mod 1000000 \<noteq> 0 then ''.'' @ fmt_d 6 (ss mod 1000000) else [])
               else [])))"

definition isoformat :: "datetime \<Rightarrow> string" where
  "isoformat d =
     fmt_d 4 (year d) @ ''-'' @ fmt_d 2 (month d) @ ''-'' @ fmt_d 2 (day d) @ ''T'' @
     format_time (hour d) (minute d) (second d) (microsecond d) @
     format_offset (utcoffset d)"

text \<open>
  The ranges Python keeps the fields of a \<^verbatim>\<open>datetime\<close> in (the day is further
  bounded by the month, which the text of the timestamp does not depend on).
\<close>

definition valid_datetime :: "datetime \<Rightarrow> bool" where
  "valid_datetime d \<longleftrightarrow>
     1 \<le> year d \<and> year d \<le> 9999 \<and> 1 \<le> month d \<and> month d \<le> 12 \<and>
     1 \<le> day d \<and> day d \<le> 31 \<and> hour d < 24 \<and> minute d < 60 \<and> second d < 60 \<and>
     microsecond d < 1000000"

subsection \<open>The chat message detail and its serialization\<close>

text \<open>
  \<^verbatim>\<open>class ChatMessageDetail(BaseModel)\<close>, field by field. \<^verbatim>\<open>RetrievalDocs\<close>,
  \<^verbatim>\<open>MessageType\<close>, \<^verbatim>\<open>FileDescriptor\<close> and \<^verbatim>\<open>ToolCallFinalResult\<close> are imported.
\<close>

record 'o ChatMessageDetail =
  message_id :: int
  parent_message :: "int option"
  latest_child_message :: "int option"
  message :: string
  rephrased_query :: "string option"
  context_docs :: "'o option"
  message_type :: 'o
  time_sent :: datetime
  alternate_assistant_id :: "string option"
  citations :: "(int \<times> int) list option"
  files :: "'o list"
  tool_calls :: "'o list"

text \<open>The fields of an instance as key and value pairs, in the order of declaration.\<close>

definition ChatMessageDetail_items :: "'o ChatMessageDetail \<Rightarrow> (string \<times> 'o pyval) list" where
  "ChatMessageDetail_items self =
     [(''message_id'', PyInt (message_id self)),
      (''parent_message'', py_opt PyInt (parent_message self)),
      (''latest_child_message'', py_opt PyInt (latest_child_message self)),
      (''message'', PyStr (message self)),
      (''rephrased_query'', py_opt PyStr (rephrased_query self)),
      (''context_docs'', py_opt PyObj (context_docs self)),
      (''message_type'', PyObj (message_type self)),
      (''time_sent'', PyDatetime (time_sent self)),
      (''alternate_assistant_id'', py_opt PyStr (alternate_assistant_id self)),
      (''citations'',
         py_opt (\<lambda>c. PyDict (map (\<lambda>(k, v). (PyInt k, PyInt v)) c)) (citations self)),
      (''files'', PyList (map PyObj (files self))),
      (''tool_calls'', PyList (map PyObj (tool_calls self)))]"

text \<open>
  The keyword arguments of pydantic's \<^verbatim>\<open>BaseModel.dict\<close> that select keys:
  \<^verbatim>\<open>include\<close>, \<^verbatim>\<open>exclude\<close> (sets of field names, \<^verbatim>\<open>None\<close> by default) and
  \<^verbatim>\<open>exclude_none\<close> (\<^verbatim>\<open>False\<close> by default).
\<close>

record dict_kwargs =
  kw_include :: "string list option"
  kw_exclude :: "string list option"
  kw_exclude_none :: bool

definition no_kwargs :: dict_kwargs where
  "no_kwargs = \<lparr> kw_include = None, kw_exclude = None, kw_exclude_none = False \<rparr>"

definition key_selected :: "dict_kwargs \<Rightarrow> string \<times> 'o pyval \<Rightarrow> bool" where
  "key_selected kwargs kv =
     ((case kw_include kwargs of None \<Rightarrow> True | Some ks \<Rightarrow> fst kv \<in> set ks) \<and>
      (case kw_exclude kwargs of None \<Rightarrow> True | Some ks \<Rightarrow> fst kv \<notin> set ks) \<and>
      \<not> (kw_exclude_none kwargs \<and> snd kv = PyNone))"

text \<open>
  \<^verbatim>\<open>BaseModel.dict(**kwargs)\<close> of pydantic on a model with these fields: the selected
  keys with their values.
\<close>

definition BaseModel_dict :: "dict_kwargs \<Rightarrow> 'o ChatMessageDetail \<Rightarrow> 'o pydict" where
  "BaseModel_dict kwargs self = map_of (filter (key_selected kwargs) (ChatMessageDetail_items self))"

text \<open>
  \<^verbatim>\<open>ChatMessageDetail.dict\<close>. \<open>super_dict\<close> is \<^verbatim>\<open>super().dict\<close>, the serialization of
  the base model, called with the arguments of the caller.
\<close>

definition ChatMessageDetail_dict ::
  "('kw \<Rightarrow> 'o ChatMessageDetail \<Rightarrow> 'o pydict) \<Rightarrow> 'kw \<Rightarrow> 'o ChatMessageDetail \<Rightarrow> 'o pydict" where
  "ChatMessageDetail_dict super_dict kwargs self =
     (let initial_dict = super_dict kwargs self
      in initial_dict(''time_sent'' \<mapsto> PyStr (isoformat (time_sent self))))"

text \<open>
  A message to evaluate the serialization on: an assistant's answer sent on 1 May 2024 at
  12:30:45 UTC, citing document 42 as citation 1.
\<close>

definition answer_detail :: "string ChatMessageDetail" where
  "answer_detail =
     \<lparr> message_id = 7,
       parent_message = Some 6,
       latest_child_message = None,
       message = ''Paris is the capital of France.'',
       rephrased_query = Some ''capital of France'',
       context_docs = None,
       message_type = ''MessageType.ASSISTANT'',
       time_sent = \<lparr> year = 2024, month = 5, day = 1, hour = 12, minute = 30, second = 45,
                     microsecond = 0, utcoffset = Some 0 \<rparr>,
       alternate_assistant_id = None,
       citations = Some [(1, 42)],
       files = [],
       tool_calls = [] \<rparr>"

text \<open>
  The field dictionary of a \<^verbatim>\<open>CreateChatMessageRequest\<close> with the given
  \<^verbatim>\<open>search_doc_ids\<close> and \<^verbatim>\<open>retrieval_options\<close>; the other declared fields hold a
  first message of session 1 or their defaults.
\<close>

definition message_request :: "string pyval \<Rightarrow> string pyval \<Rightarrow> string pydict" where
  "message_request search_doc_ids retrieval_options =
     [''persona_config'' \<mapsto> PyNone,
      ''chat_session_id'' \<mapsto> PyInt 1,
      ''parent_message_id'' \<mapsto> PyNone,
      ''message'' \<mapsto> PyStr ''What is the capital of France?'',
      ''file_descriptors'' \<mapsto> PyList [],
      ''prompt_id'' \<mapsto> PyNone,
      ''search_doc_ids'' \<mapsto> search_doc_ids,
      ''retrieval_options'' \<mapsto> retrieval_options,
      ''query_override'' \<mapsto> PyNone,
      ''llm_override'' \<mapsto> PyNone,
      ''prompt_override'' \<mapsto> PyNone,
      ''alternate_assistant_id'' \<mapsto> PyNone,
      ''use_existing_user_message'' \<mapsto> PyBool False]"

text \<open>The field dictionary of a \<^verbatim>\<open>ChatFeedbackRequest\<close> on message 5.\<close>

definition feedback_request :: "string pyval \<Rightarrow> string pyval \<Rightarrow> string pydict" where
  "feedback_request is_positive feedback_text =
     [''chat_message_id'' \<mapsto> PyInt 5,
      ''is_positive'' \<mapsto> is_positive,
      ''feedback_text'' \<mapsto> feedback_text,
      ''predefined_feedback'' \<mapsto> PyNone]"

text \<open>
  The field dictionary of a \<^verbatim>\<open>SearchFeedbackRequest\<close> on the first document shown
  for message 5.
\<close>

definition search_feedback_request :: "bool \<Rightarrow> string pyval \<Rightarrow> string pydict" where
  "search_feedback_request click search_feedback =
     [''message_id'' \<mapsto> PyInt 5,
      ''document_id'' \<mapsto> PyStr ''doc-17'',
      ''document_rank'' \<mapsto> PyInt 1,
      ''click'' \<mapsto> PyBool click,
      ''search_feedback'' \<mapsto> search_feedback]"

section \<open>Properties\<close>

subsection \<open>What the validators compute\<close>

lemma run_check_is_positive_or_feedback_text:
  "run_root_validator check_is_positive_or_feedback_text vals =
     (if dict_get vals ''is_positive'' = PyNone \<and> dict_get vals ''feedback_text'' = PyNone
      then Inl (ValidationError [''Empty feedback received.''])
      else Inr vals)"
  by (simp add: run_root_validator_def check_is_positive_or_feedback_text_def Let_def)

lemma run_check_search_doc_ids_or_retrieval_options:
  "run_root_validator check_search_doc_ids_or_retrieval_options vals =
     (if dict_get vals ''search_doc_ids'' = PyNone \<and> dict_get vals ''retrieval_options'' = PyNone
      then Inl (ValidationError
        [''Either search_doc_ids or retrieval_options must be provided, but not both or neither.''])
      else Inr vals)"
  by (simp add: run_root_validator_def check_search_doc_ids_or_retrieval_options_def Let_def)

lemma run_check_click_or_search_feedback:
  "run_root_validator check_click_or_search_feedback vals =
     (if dict_get vals ''click'' = PyBool False \<and> dict_get vals ''search_feedback'' = PyNone
      then Inl (ValidationError [''Empty feedback received.''])
      else Inr vals)"
  by (simp add: run_root_validator_def check_click_or_search_feedback_def Let_def)

lemma message_request_get:
  "dict_get (message_request s r) ''search_doc_ids'' = s"
  "dict_get (message_request s r) ''retrieval_options'' = r"
  by (simp_all add: message_request_def dict_get_def)

lemma feedback_request_get:
  "dict_get (feedback_request p t) ''is_positive'' = p"
  "dict_get (feedback_request p t) ''feedback_text'' = t"
  by (simp_all add: feedback_request_def dict_get_def)

lemma search_feedback_request_get:
  "search_feedback_request c f ''click'' = Some (PyBool c)"
  "dict_get (search_feedback_request c f) ''click'' = PyBool c"
  "dict_get (search_feedback_request c f) ''search_feedback'' = f"
  by (simp_all add: search_feedback_request_def dict_get_def)

subsection \<open>Message-creation requests\<close>

text \<open>
  C1. A \<^verbatim>\<open>CreateChatMessageRequest\<close> is to be accepted only if exactly one of
  \<^verbatim>\<open>search_doc_ids\<close> and \<^verbatim>\<open>retrieval_options\<close> is non-null, a request with both
  set being rejected like a request with neither. The message of the validator states this
  rule (``but not both or neither''), while its test covers the case of neither only: the
  request below, with both set, passes validation unchanged.
\<close>

theorem both_set_request_is_accepted:
  "run_root_validator check_search_doc_ids_or_retrieval_options
     (message_request (PyList [PyInt 3, PyInt 4]) (PyObj ''RetrievalDetails()''))
   = Inr (message_request (PyList [PyInt 3, PyInt 4]) (PyObj ''RetrievalDetails()''))"
  by (simp add: run_check_search_doc_ids_or_retrieval_options message_request_get)

text \<open>
  C2. The rule on \<^verbatim>\<open>search_doc_ids\<close> and \<^verbatim>\<open>retrieval_options\<close> is enforced in the
  absence direction only: a request with both non-null passes validation, a request with
  both null is rejected with a \<^verbatim>\<open>ValidationError\<close>, and nothing else is rejected.
\<close>

theorem search_doc_ids_or_retrieval_options_absence_only:
  "(dict_get vals ''search_doc_ids'' \<noteq> PyNone \<and> dict_get vals ''retrieval_options'' \<noteq> PyNone
      \<longrightarrow> run_root_validator check_search_doc_ids_or_retrieval_options vals = Inr vals) \<and>
   (dict_get vals ''search_doc_ids'' = PyNone \<and> dict_get vals ''retrieval_options'' = PyNone
      \<longrightarrow> run_root_validator check_search_doc_ids_or_retrieval_options vals =
          Inl (ValidationError
            [''Either search_doc_ids or retrieval_options must be provided, but not both or neither.''])) \<and>
   ((\<exists>msgs. run_root_validator check_search_doc_ids_or_retrieval_options vals =
        Inl (ValidationError msgs))
      \<longleftrightarrow> dict_get vals ''search_doc_ids'' = PyNone \<and> dict_get vals ''retrieval_options'' = PyNone)"
  by (simp add: run_check_search_doc_ids_or_retrieval_options)

text \<open>A request with both set and a request with neither.\<close>

theorem search_doc_ids_or_retrieval_options_absence_only_witness:
  "run_root_validator check_search_doc_ids_or_retrieval_options
     (message_request (PyList [PyInt 8]) (PyObj ''RetrievalDetails(run_search=always)''))
     = Inr (message_request (PyList [PyInt 8]) (PyObj ''RetrievalDetails(run_search=always)'')) \<and>
   run_root_validator check_search_doc_ids_or_retrieval_options (message_request PyNone PyNone)
     = Inl (ValidationError
         [''Either search_doc_ids or retrieval_options must be provided, but not both or neither.''])"
  using search_doc_ids_or_retrieval_options_absence_only
          [of "message_request (PyList [PyInt 8]) (PyObj ''RetrievalDetails(run_search=always)'')"]
        search_doc_ids_or_retrieval_options_absence_only [of "message_request PyNone PyNone"]
  by (simp add: message_request_get)

subsection \<open>Feedback requests\<close>

text \<open>
  C3. Validation of a \<^verbatim>\<open>ChatFeedbackRequest\<close> raises a \<^verbatim>\<open>ValidationError\<close> if and
  only if \<^verbatim>\<open>is_positive\<close> and \<^verbatim>\<open>feedback_text\<close> are both null; with at least one of
  them non-null the request is accepted.
\<close>

theorem chat_feedback_rejected_iff_both_null:
  "((\<exists>msgs. run_root_validator check_is_positive_or_feedback_text vals =
        Inl (ValidationError msgs))
      \<longleftrightarrow> dict_get vals ''is_positive'' = PyNone \<and> dict_get vals ''feedback_text'' = PyNone) \<and>
   (run_root_validator check_is_positive_or_feedback_text vals = Inr vals
      \<longleftrightarrow> \<not> (dict_get vals ''is_positive'' = PyNone \<and> dict_get vals ''feedback_text'' = PyNone))"
  by (simp add: run_check_is_positive_or_feedback_text)

text \<open>Feedback on message 5 with neither field, with a text only, with a vote only.\<close>

theorem chat_feedback_rejected_iff_both_null_witness:
  "(\<exists>msgs. run_root_validator check_is_positive_or_feedback_text (feedback_request PyNone PyNone)
      = Inl (ValidationError msgs)) \<and>
   run_root_validator check_is_positive_or_feedback_text
     (feedback_request PyNone (PyStr ''Cites the wrong document''))
     = Inr (feedback_request PyNone (PyStr ''Cites the wrong document'')) \<and>
   run_root_validator check_is_positive_or_feedback_text (feedback_request (PyBool True) PyNone)
     = Inr (feedback_request (PyBool True) PyNone)"
  using chat_feedback_rejected_iff_both_null [of "feedback_request PyNone PyNone"]
        chat_feedback_rejected_iff_both_null
          [of "feedback_request PyNone (PyStr ''Cites the wrong document'')"]
        chat_feedback_rejected_iff_both_null [of "feedback_request (PyBool True) PyNone"]
  by (simp add: feedback_request_get)

text \<open>
  C4. A \<^verbatim>\<open>SearchFeedbackRequest\<close>, whose \<^verbatim>\<open>click\<close> is a boolean, is accepted if and
  only if \<^verbatim>\<open>click\<close> is true or \<^verbatim>\<open>search_feedback\<close> is non-null; with \<^verbatim>\<open>click\<close>
  false and \<^verbatim>\<open>search_feedback\<close> null it is rejected with a \<^verbatim>\<open>ValidationError\<close>.
\<close>

theorem search_feedback_accepted_iff:
  assumes "vals ''click'' = Some (PyBool click)"
  shows "(run_root_validator check_click_or_search_feedback vals = Inr vals
            \<longleftrightarrow> click \<or> dict_get vals ''search_feedback'' \<noteq> PyNone) \<and>
         (run_root_validator check_click_or_search_feedback vals =
            Inl (ValidationError [''Empty feedback received.''])
            \<longleftrightarrow> \<not> click \<and> dict_get vals ''search_feedback'' = PyNone)"
proof -
  from assms have "dict_get vals ''click'' = PyBool click"
    by (simp add: dict_get_def)
  then show ?thesis
    by (auto simp add: run_check_click_or_search_feedback)
qed

text \<open>No click and no feedback; a click alone; an endorsement without a click.\<close>

theorem search_feedback_accepted_iff_witness:
  "search_feedback_request False PyNone ''click'' = Some (PyBool False) \<and>
   run_root_validator check_click_or_search_feedback (search_feedback_request False PyNone)
     = Inl (ValidationError [''Empty feedback received.'']) \<and>
   search_feedback_request True PyNone ''click'' = Some (PyBool True) \<and>
   run_root_validator check_click_or_search_feedback (search_feedback_request True PyNone)
     = Inr (search_feedback_request True PyNone) \<and>
   search_feedback_request False (PyObj ''SearchFeedbackType.ENDORSE'') ''click'' = Some (PyBool False) \<and>
   run_root_validator check_click_or_search_feedback
     (search_feedback_request False (PyObj ''SearchFeedbackType.ENDORSE''))
     = Inr (search_feedback_request False (PyObj ''SearchFeedbackType.ENDORSE''))"
  using search_feedback_accepted_iff
          [of "search_feedback_request False PyNone" False]
        search_feedback_accepted_iff
          [of "search_feedback_request True PyNone" True]
        search_feedback_accepted_iff
          [of "search_feedback_request False (PyObj ''SearchFeedbackType.ENDORSE'')" False]
  by (simp add: search_feedback_request_get)

subsection \<open>Accepted requests are returned as they came\<close>

text \<open>
  C5. Each of the three root validators, when it accepts, returns the dictionary of field
  values it was given: every field of the accepted request equals the field as supplied.
  A validator is a function of that dictionary alone, so it has no other effect.
\<close>

theorem validators_return_values_unchanged:
  assumes "validator \<in> {check_is_positive_or_feedback_text,
                         check_search_doc_ids_or_retrieval_options,
                         check_click_or_search_feedback}"
    and "validator vals = Inr vals'"
  shows "vals' = vals"
  using assms
  by (auto simp add: check_is_positive_or_feedback_text_def
        check_search_doc_ids_or_retrieval_options_def check_click_or_search_feedback_def
        Let_def split: if_splits)

text \<open>A vote, a list of documents and a click, each accepted and returned as given.\<close>

theorem validators_return_values_unchanged_witness:
  "check_is_positive_or_feedback_text (feedback_request (PyBool True) PyNone)
     = Inr (feedback_request (PyBool True) PyNone) \<and>
   check_search_doc_ids_or_retrieval_options (message_request (PyList [PyInt 3]) PyNone)
     = Inr (message_request (PyList [PyInt 3]) PyNone) \<and>
   check_click_or_search_feedback (search_feedback_request True PyNone)
     = Inr (search_feedback_request True PyNone)"
proof -
  let ?three = "{check_is_positive_or_feedback_text,
                 check_search_doc_ids_or_retrieval_options,
                 check_click_or_search_feedback} :: (string pydict \<Rightarrow> exn + string pydict) set"
  have m1: "check_is_positive_or_feedback_text \<in> ?three"
    and m2: "check_search_doc_ids_or_retrieval_options \<in> ?three"
    and m3: "check_click_or_search_feedback \<in> ?three"
    by simp_all
  obtain v1 where v1:
    "check_is_positive_or_feedback_text (feedback_request (PyBool True) PyNone) = Inr v1"
    by (simp add: check_is_positive_or_feedback_text_def feedback_request_get)
  obtain v2 where v2:
    "check_search_doc_ids_or_retrieval_options (message_request (PyList [PyInt 3]) PyNone)
       = Inr v2"
    by (simp add: check_search_doc_ids_or_retrieval_options_def message_request_get)
  obtain v3 where v3:
    "check_click_or_search_feedback (search_feedback_request True PyNone) = Inr v3"
    by (simp add: check_click_or_search_feedback_def search_feedback_request_get)
  from validators_return_values_unchanged [OF m1 v1]
       validators_return_values_unchanged [OF m2 v2]
       validators_return_values_unchanged [OF m3 v3]
       v1 v2 v3
  show ?thesis
    by simp
qed

subsection \<open>Presence is tested, not truth\<close>

text \<open>
  C9. The three validators test \<^verbatim>\<open>is None\<close>, never truthiness: a
  \<^verbatim>\<open>ChatFeedbackRequest\<close> with \<^verbatim>\<open>is_positive = False\<close> and a null
  \<^verbatim>\<open>feedback_text\<close> is accepted, a \<^verbatim>\<open>CreateChatMessageRequest\<close> with
  \<^verbatim>\<open>search_doc_ids = []\<close> and null \<^verbatim>\<open>retrieval_options\<close> is accepted, and a
  \<^verbatim>\<open>SearchFeedbackRequest\<close> with \<^verbatim>\<open>click\<close> false is accepted whenever
  \<^verbatim>\<open>search_feedback\<close> is not null; yet \<^verbatim>\<open>False\<close> and \<^verbatim>\<open>[]\<close> are false as
  truth values.
\<close>

theorem validators_test_not_none:
  "(dict_get vals ''is_positive'' = PyBool False \<and> dict_get vals ''feedback_text'' = PyNone
      \<longrightarrow> run_root_validator check_is_positive_or_feedback_text vals = Inr vals) \<and>
   (dict_get vals ''search_doc_ids'' = PyList [] \<and> dict_get vals ''retrieval_options'' = PyNone
      \<longrightarrow> run_root_validator check_search_doc_ids_or_retrieval_options vals = Inr vals) \<and>
   (dict_get vals ''click'' = PyBool False \<and> dict_get vals ''search_feedback'' \<noteq> PyNone
      \<longrightarrow> run_root_validator check_click_or_search_feedback vals = Inr vals) \<and>
   \<not> truthy (PyBool False :: 'o pyval) \<and> \<not> truthy (PyList [] :: 'o pyval)"
  by (simp add: run_check_is_positive_or_feedback_text
        run_check_search_doc_ids_or_retrieval_options run_check_click_or_search_feedback)

text \<open>A negative vote, an empty list of documents, and a rejection without a click.\<close>

theorem validators_test_not_none_witness:
  "run_root_validator check_is_positive_or_feedback_text (feedback_request (PyBool False) PyNone)
     = Inr (feedback_request (PyBool False) PyNone) \<and>
   run_root_validator check_search_doc_ids_or_retrieval_options (message_request (PyList []) PyNone)
     = Inr (message_request (PyList []) PyNone) \<and>
   run_root_validator check_click_or_search_feedback
     (search_feedback_request False (PyObj ''SearchFeedbackType.REJECT''))
     = Inr (search_feedback_request False (PyObj ''SearchFeedbackType.REJECT'')) \<and>
   \<not> truthy (PyBool False :: string pyval) \<and> \<not> truthy (PyList [] :: string pyval)"
  using validators_test_not_none [of "feedback_request (PyBool False) PyNone"]
        validators_test_not_none [of "message_request (PyList []) PyNone"]
        validators_test_not_none
          [of "search_feedback_request False (PyObj ''SearchFeedbackType.REJECT'')"]
  by (simp add: feedback_request_get message_request_get search_feedback_request_get)

subsection \<open>Defaults of the constructors\<close>

text \<open>
  C7. A \<^verbatim>\<open>ToolConfig\<close> constructed without a \<^verbatim>\<open>display_name\<close> does not get the
  name of the tool as its display name. For the tool named \<^verbatim>\<open>search\<close>:
\<close>

theorem tool_config_display_name_counterexample:
  "display_name (ToolConfig_init ''search'' ''Searches the connected sources''
      Omitted Omitted Omitted :: string ToolConfig)
   \<noteq> Some (name (ToolConfig_init ''search'' ''Searches the connected sources''
      Omitted Omitted Omitted :: string ToolConfig))"
  by (simp add: ToolConfig_init_def field_default_def)

text \<open>
  C7, as the code has it: a \<^verbatim>\<open>ToolConfig\<close> constructed without a
  \<^verbatim>\<open>display_name\<close> has the display name \<^verbatim>\<open>None\<close>, the declared default; a given
  display name is kept; the name is the one given, in either case.
\<close>

theorem tool_config_display_name_default_none:
  "display_name (ToolConfig_init name_arg description_arg in_code_tool_id_arg Omitted
      openapi_schema_arg) = None \<and>
   display_name (ToolConfig_init name_arg description_arg in_code_tool_id_arg (Given v)
      openapi_schema_arg) = v \<and>
   name (ToolConfig_init name_arg description_arg in_code_tool_id_arg display_name_arg
      openapi_schema_arg) = name_arg"
  by (simp add: ToolConfig_init_def field_default_def)

text \<open>The built-in tool 1, without and with a display name.\<close>

theorem tool_config_display_name_default_none_witness:
  "display_name (ToolConfig_init ''search'' ''Searches the connected sources''
      (Given (Some 1)) Omitted Omitted :: string ToolConfig) = None \<and>
   display_name (ToolConfig_init ''search'' ''Searches the connected sources''
      (Given (Some 1)) (Given (Some ''Search'')) Omitted :: string ToolConfig) = Some ''Search''"
  using tool_config_display_name_default_none
          [of "''search''" "''Searches the connected sources''" "Given (Some 1)"
              "Omitted :: (string \<times> string pyval) list option arg" "Some ''Search''"]
  by simp

text \<open>
  C8. A \<^verbatim>\<open>ChatSessionCreationRequest\<close> constructed without a \<^verbatim>\<open>persona_id\<close> has
  \<^verbatim>\<open>persona_id\<close> 0, the default persona.
\<close>

theorem chat_session_creation_default_persona:
  "persona_id (ChatSessionCreationRequest_init Omitted description_arg) = 0"
  by (simp add: ChatSessionCreationRequest_init_def field_default_def)

text \<open>With a description only, and with no argument at all.\<close>

theorem chat_session_creation_default_persona_witness:
  "persona_id (ChatSessionCreationRequest_init Omitted (Given (Some ''Planning'')))  = 0 \<and>
   persona_id (ChatSessionCreationRequest_init Omitted Omitted) = 0"
  using chat_session_creation_default_persona [of "Given (Some ''Planning'')"]
        chat_session_creation_default_persona [of Omitted]
  by simp

subsection \<open>The serialized chat message detail\<close>

lemma dec_length_le:
  "n < 10 ^ w \<Longrightarrow> 0 < w \<Longrightarrow> length (dec n) \<le> w"
proof (induction n arbitrary: w rule: dec.induct)
  case (1 n)
  show ?case
  proof (cases "n < 10")
    case True
    with "1.prems" show ?thesis by (simp add: dec.simps)
  next
    case False
    from "1.prems" obtain w' where w: "w = Suc w'" by (cases w) auto
    with "1.prems" have lt: "n div 10 < 10 ^ w'"
      by (simp add: less_mult_imp_div_less)
    have "0 < w'"
    proof (rule ccontr)
      assume "\<not> 0 < w'"
      with w "1.prems" False show False by simp
    qed
    with "1.IH" [OF False lt] have "length (dec (n div 10)) \<le> w'" by simp
    with False w show ?thesis by (simp add: dec.simps [of n])
  qed
qed

lemma fmt_d_length: "n < 10 ^ w \<Longrightarrow> 0 < w \<Longrightarrow> length (fmt_d w n) = w"
  using dec_length_le [of n w] by (simp add: fmt_d_def)

lemma digit_nth: "k < 10 \<Longrightarrow> ''0123456789'' ! k \<in> set ''0123456789''"
  by (rule nth_mem) simp

lemma dec_digits: "set (dec n) \<subseteq> set ''0123456789''"
proof (induction n rule: dec.induct)
  case (1 n)
  show ?case
  proof (cases "n < 10")
    case True
    then have "dec n = [''0123456789'' ! n]" by (simp add: dec.simps)
    with True digit_nth [of n] show ?thesis by simp
  next
    case False
    then have "dec n = dec (n div 10) @ [''0123456789'' ! (n mod 10)]"
      by (simp add: dec.simps [of n])
    with "1.IH" [OF False] digit_nth [of "n mod 10"] show ?thesis by simp
  qed
qed

lemma fmt_d_digits: "set (fmt_d w n) \<subseteq> set ''0123456789''"
  using dec_digits [of n] by (auto simp add: fmt_d_def)

text \<open>
  The text of a valid timestamp starts with the calendar date and the time of day of
  ISO 8601: four, two and two digits separated by hyphens, a \<^verbatim>\<open>T\<close>, and two, two and two
  digits separated by colons.
\<close>

lemma isoformat_shape:
  assumes "valid_datetime d"
  shows "\<exists>y m dd hh mi ss rest.
           isoformat d = y @ ''-'' @ m @ ''-'' @ dd @ ''T'' @ hh @ '':'' @ mi @ '':'' @ ss @ rest \<and>
           length y = 4 \<and> length m = 2 \<and> length dd = 2 \<and>
           length hh = 2 \<and> length mi = 2 \<and> length ss = 2 \<and>
           set (y @ m @ dd @ hh @ mi @ ss) \<subseteq> set ''0123456789''"
proof -
  let ?rest = "(if microsecond d \<noteq> 0 then ''.'' @ fmt_d 6 (microsecond d) else []) @
               format_offset (utcoffset d)"
  have eq: "isoformat d =
      fmt_d 4 (year d) @ ''-'' @ fmt_d 2 (month d) @ ''-'' @ fmt_d 2 (day d) @ ''T'' @
      fmt_d 2 (hour d) @ '':'' @ fmt_d 2 (minute d) @ '':'' @ fmt_d 2 (second d) @ ?rest"
    by (simp add: isoformat_def format_time_def)
  from assms have len: "length (fmt_d 4 (year d)) = 4" "length (fmt_d 2 (month d)) = 2"
    "length (fmt_d 2 (day d)) = 2" "length (fmt_d 2 (hour d)) = 2"
    "length (fmt_d 2 (minute d)) = 2" "length (fmt_d 2 (second d)) = 2"
    by (simp_all add: valid_datetime_def fmt_d_length)
  have dig: "set (fmt_d 4 (year d) @ fmt_d 2 (month d) @ fmt_d 2 (day d) @
                  fmt_d 2 (hour d) @ fmt_d 2 (minute d) @ fmt_d 2 (second d))
             \<subseteq> set ''0123456789''"
    using fmt_d_digits [of 4 "year d"] fmt_d_digits [of 2 "month d"] fmt_d_digits [of 2 "day d"]
      fmt_d_digits [of 2 "hour d"] fmt_d_digits [of 2 "minute d"] fmt_d_digits [of 2 "second d"]
    by (simp only: set_append Un_subset_iff)
  show ?thesis
    apply (rule exI [of _ "fmt_d 4 (year d)"])
    apply (rule exI [of _ "fmt_d 2 (month d)"])
    apply (rule exI [of _ "fmt_d 2 (day d)"])
    apply (rule exI [of _ "fmt_d 2 (hour d)"])
    apply (rule exI [of _ "fmt_d 2 (minute d)"])
    apply (rule exI [of _ "fmt_d 2 (second d)"])
    apply (rule exI [of _ ?rest])
    apply (intro conjI)
           apply (rule eq)
          apply (rule len)+
    apply (rule dig)
    done
qed

lemma answer_detail_valid_datetime: "valid_datetime (time_sent answer_detail)"
  by (simp add: valid_datetime_def answer_detail_def)

lemma answer_detail_isoformat:
  "isoformat (time_sent answer_detail) = ''2024-05-01T12:30:45+00:00''"
  by (simp add: answer_detail_def isoformat_def format_time_def format_offset_def fmt_d_def
        dec.simps Let_def)

lemma BaseModel_dict_no_kwargs_time_sent:
  "BaseModel_dict no_kwargs self ''time_sent'' = Some (PyDatetime (time_sent self))"
  by (simp add: BaseModel_dict_def no_kwargs_def key_selected_def ChatMessageDetail_items_def)

lemma BaseModel_dict_no_kwargs_message:
  "BaseModel_dict no_kwargs self ''message'' = Some (PyStr (message self))"
  by (simp add: BaseModel_dict_def no_kwargs_def key_selected_def ChatMessageDetail_items_def)

text \<open>
  C6. The dictionary produced by \<^verbatim>\<open>ChatMessageDetail.dict\<close> carries \<^verbatim>\<open>time_sent\<close>
  as a string, the \<^verbatim>\<open>isoformat\<close> of the datetime, and not as a datetime; whatever the
  base serialization and the arguments of the call are.
\<close>

theorem chat_message_detail_time_sent_isoformat:
  "ChatMessageDetail_dict super_dict kwargs self ''time_sent''
     = Some (PyStr (isoformat (time_sent self))) \<and>
   (\<forall>d. ChatMessageDetail_dict super_dict kwargs self ''time_sent'' \<noteq> Some (PyDatetime d))"
  by (simp add: ChatMessageDetail_dict_def Let_def)

text \<open>
  The answer sent on 1 May 2024 at 12:30:45 UTC: a datetime in the base serialization, the
  text \<^verbatim>\<open>2024-05-01T12:30:45+00:00\<close> in the overridden one.
\<close>

theorem chat_message_detail_time_sent_isoformat_witness:
  "BaseModel_dict no_kwargs answer_detail ''time_sent''
     = Some (PyDatetime (time_sent answer_detail)) \<and>
   ChatMessageDetail_dict BaseModel_dict no_kwargs answer_detail ''time_sent''
     = Some (PyStr ''2024-05-01T12:30:45+00:00'')"
  using chat_message_detail_time_sent_isoformat [of BaseModel_dict no_kwargs answer_detail]
  by (simp add: answer_detail_isoformat BaseModel_dict_no_kwargs_time_sent)

text \<open>
  C10. The overridden \<^verbatim>\<open>dict\<close> does add a key when the base serialization has left
  \<^verbatim>\<open>time_sent\<close> out: under \<^verbatim>\<open>dict(exclude={"time_sent"})\<close> the key is absent from
  the base serialization and present in the result.
\<close>

theorem chat_message_detail_dict_adds_time_sent_counterexample:
  "''time_sent'' \<notin> dom (BaseModel_dict
      \<lparr> kw_include = None, kw_exclude = Some [''time_sent''], kw_exclude_none = False \<rparr>
      answer_detail) \<and>
   ''time_sent'' \<in> dom (ChatMessageDetail_dict BaseModel_dict
      \<lparr> kw_include = None, kw_exclude = Some [''time_sent''], kw_exclude_none = False \<rparr>
      answer_detail)"
  by (simp add: ChatMessageDetail_dict_def Let_def BaseModel_dict_def key_selected_def
        ChatMessageDetail_items_def domIff)

text \<open>
  C10, as the code has it: every key other than \<^verbatim>\<open>time_sent\<close> maps to exactly the
  value of the base serialization, no key is removed, and no key other than
  \<^verbatim>\<open>time_sent\<close> is added: the keys of the result are those of the base serialization
  together with \<^verbatim>\<open>time_sent\<close>. Where the base serialization has \<^verbatim>\<open>time_sent\<close>, as in
  a call without arguments, the keys are the same.
\<close>

theorem chat_message_detail_dict_frame:
  "(\<forall>k. k \<noteq> ''time_sent'' \<longrightarrow>
      ChatMessageDetail_dict super_dict kwargs self k = super_dict kwargs self k) \<and>
   dom (ChatMessageDetail_dict super_dict kwargs self)
     = insert ''time_sent'' (dom (super_dict kwargs self)) \<and>
   (''time_sent'' \<in> dom (super_dict kwargs self) \<longrightarrow>
      dom (ChatMessageDetail_dict super_dict kwargs self) = dom (super_dict kwargs self))"
  by (auto simp add: ChatMessageDetail_dict_def Let_def)

text \<open>The call without arguments on the answer of 1 May 2024.\<close>

theorem chat_message_detail_dict_frame_witness:
  "''message'' \<noteq> ''time_sent'' \<and>
   ChatMessageDetail_dict BaseModel_dict no_kwargs answer_detail ''message''
     = Some (PyStr ''Paris is the capital of France.'') \<and>
   ''time_sent'' \<in> dom (BaseModel_dict no_kwargs answer_detail) \<and>
   dom (ChatMessageDetail_dict BaseModel_dict no_kwargs answer_detail)
     = dom (BaseModel_dict no_kwargs answer_detail)"
proof -
  note frame = chat_message_detail_dict_frame [of BaseModel_dict no_kwargs answer_detail]
  have ts: "''time_sent'' \<in> dom (BaseModel_dict no_kwargs answer_detail)"
    by (simp add: BaseModel_dict_no_kwargs_time_sent domIff)
  have ne: "''message'' \<noteq> ''time_sent''"
    by simp
  have "ChatMessageDetail_dict BaseModel_dict no_kwargs answer_detail ''message''
      = BaseModel_dict no_kwargs answer_detail ''message''"
    using frame [THEN conjunct1, rule_format, OF ne] .
  then have msg: "ChatMessageDetail_dict BaseModel_dict no_kwargs answer_detail ''message''
      = Some (PyStr ''Paris is the capital of France.'')"
    by (simp add: BaseModel_dict_no_kwargs_message answer_detail_def)
  have eq: "dom (ChatMessageDetail_dict BaseModel_dict no_kwargs answer_detail)
      = dom (BaseModel_dict no_kwargs answer_detail)"
    using frame [THEN conjunct2, THEN conjunct2, rule_format, OF ts] .
  show ?thesis
    using ne msg ts eq by (intro conjI)
qed

end
